theory Spec2Isabelle
  imports Main "HOL-Library.Sublist"
begin

section \<open>The error-decoration package \<^verbatim>\<open>errors\<close>\<close>

text \<open>
  A shallow embedding of \<^verbatim>\<open>errors.go\<close>: the type \<^verbatim>\<open>ExtendedError\<close>, its constructor
  \<^verbatim>\<open>New\<close>, its methods, the helpers \<^verbatim>\<open>concatMsg\<close>, \<^verbatim>\<open>stackFrames\<close> and \<^verbatim>\<open>handle\<close>, and the
  free function \<^verbatim>\<open>Handle\<close>.

  Conventions of the model.
  \<^item> A Go \<^verbatim>\<open>string\<close> is a \<open>string\<close> (a list of bytes); the newline is \<open>CHR 0x0A\<close>.
  \<^item> A Go \<^verbatim>\<open>int\<close> is an \<open>int\<close>: the package only stores and compares its integers
    (\<^verbatim>\<open>level > 0\<close>, \<^verbatim>\<open>stackFrames == 0\<close>, \<^verbatim>\<open>fr < len(st)\<close>), it never computes with them.
  \<^item> The interface \<^verbatim>\<open>error\<close> is \<open>error option\<close>: \<open>None\<close> is the nil interface, and the
    non-nil values are those of \<open>error\<close> below.
  \<^item> A panic is a result of its own: \<open>Inl\<close> for the pure helper \<^verbatim>\<open>concatMsg\<close> and for the
    \<^verbatim>\<open>Error\<close> methods, the result \<open>Panicked\<close> for the functions that also call the
    configured functions.
  \<^item> The calls of the configured log and print functions are the observable effects:
    every function that makes them returns the list of calls it made, in order,
    together with how it ended.
\<close>

subsection \<open>Constants\<close>

definition LogErr :: string where
  "LogErr = ''Log and return ''"

definition Panic :: string where
  "Panic = ''Log and panic ''"

definition Fail :: string where
  "Fail = ''Log and exit ''"

definition nl :: string where
  "nl = [CHR 0x0A]"

subsection \<open>Function values\<close>

text \<open>
  \<^verbatim>\<open>LogFunc\<close> and \<^verbatim>\<open>PrintFunc\<close> are Go function types. The package's own three functions
  are constructors; a function supplied by the caller is known by a number and by how a
  call of it ends: it returns, it panics, or it ends the process.
\<close>

datatype behaviour = Returns | Panics | Exits

datatype LogFunc = errlog | faillog | UserLog nat behaviour

datatype PrintFunc = print | UserPrint nat behaviour

text \<open>The package-level variables \<^verbatim>\<open>ErrLogger\<close>, \<^verbatim>\<open>FailLogger\<close> and \<^verbatim>\<open>ErrPrinter\<close>.\<close>

record globals =
  ErrLogger :: LogFunc
  FailLogger :: LogFunc
  ErrPrinter :: PrintFunc

definition defaults :: globals where
  "defaults = \<lparr>ErrLogger = errlog, FailLogger = faillog, ErrPrinter = print\<rparr>"

subsection \<open>Errors and the values of \<^verbatim>\<open>any\<close>\<close>

text \<open>
  A non-nil \<^verbatim>\<open>error\<close> is
  \<^item> a foreign error whose \<^verbatim>\<open>Error()\<close> returns \<open>m\<close> (\<open>PlainErr m\<close>);
  \<^item> a foreign error whose \<^verbatim>\<open>Error()\<close> panics (\<open>FaultyErr np pv\<close>, where \<open>pv\<close> is the text of
    the value it panics with and \<open>np\<close> tells whether the error is a nil pointer);
  \<^item> an \<^verbatim>\<open>ExtendedError\<close> value (\<open>ExtVal\<close>);
  \<^item> a non-nil \<^verbatim>\<open>*ExtendedError\<close> (\<open>ExtPtr\<close>, carrying what it points to at the time of the
    call);
  \<^item> the nil \<^verbatim>\<open>*ExtendedError\<close> held in the interface (\<open>ExtNil\<close>): it is not the nil
    interface, and a call of \<^verbatim>\<open>Error\<close>, a method with a value receiver, panics on it.
  The struct's field \<^verbatim>\<open>Id\<close> is \<open>Id'\<close> here.
\<close>

datatype error =
  PlainErr string
| FaultyErr bool string
| ExtVal ExtendedError
| ExtPtr ExtendedError
| ExtNil
and ExtendedError = ExtendedError
  (werr: "error option")
  (Id': string)
  (usermsg: string)
  (level: int)
  (logfn: LogFunc)
  (printfn: PrintFunc)
  (stackFrames: int)
  (Handled: bool)

text \<open>
  An argument of type \<^verbatim>\<open>any\<close>: a string, an integer, a boolean, nil, an error, or a value
  of another type, carried with the text \<^verbatim>\<open>fmt.Sprint\<close> prints for it.
\<close>

datatype any = AStr string | AInt int | ABool bool | ANil | AErr error | AOther string

text \<open>Assignments to single fields.\<close>

primrec set_werr :: "error option \<Rightarrow> ExtendedError \<Rightarrow> ExtendedError" where
  "set_werr v (ExtendedError w i u l lf pf sf h) = ExtendedError v i u l lf pf sf h"

primrec set_Id :: "string \<Rightarrow> ExtendedError \<Rightarrow> ExtendedError" where
  "set_Id v (ExtendedError w i u l lf pf sf h) = ExtendedError w v u l lf pf sf h"

primrec set_level :: "int \<Rightarrow> ExtendedError \<Rightarrow> ExtendedError" where
  "set_level v (ExtendedError w i u l lf pf sf h) = ExtendedError w i u v lf pf sf h"

primrec set_logfn :: "LogFunc \<Rightarrow> ExtendedError \<Rightarrow> ExtendedError" where
  "set_logfn v (ExtendedError w i u l lf pf sf h) = ExtendedError w i u l v pf sf h"

primrec set_printfn :: "PrintFunc \<Rightarrow> ExtendedError \<Rightarrow> ExtendedError" where
  "set_printfn v (ExtendedError w i u l lf pf sf h) = ExtendedError w i u l lf v sf h"

primrec set_stackFrames :: "int \<Rightarrow> ExtendedError \<Rightarrow> ExtendedError" where
  "set_stackFrames v (ExtendedError w i u l lf pf sf h) = ExtendedError w i u l lf pf v h"

primrec set_Handled :: "bool \<Rightarrow> ExtendedError \<Rightarrow> ExtendedError" where
  "set_Handled v (ExtendedError w i u l lf pf sf h) = ExtendedError w i u l lf pf sf v"

subsection \<open>Calls of the configured functions\<close>

text \<open>
  \<^verbatim>\<open>errlog\<close> returns at once on no argument, asserts that the first argument is a string
  (\<^verbatim>\<open>elem[0].(string)\<close>, a panic otherwise) and prints; \<^verbatim>\<open>faillog\<close> does the same and
  ends in \<^verbatim>\<open>log.Fatalln\<close>, which exits the process; \<^verbatim>\<open>print\<close> is \<^verbatim>\<open>fmt.Println\<close>.
\<close>

fun call_LogFunc :: "LogFunc \<Rightarrow> any list \<Rightarrow> behaviour" where
  "call_LogFunc errlog [] = Returns"
| "call_LogFunc errlog (AStr p # rest) = Returns"
| "call_LogFunc errlog (m # rest) = Panics"
| "call_LogFunc faillog [] = Returns"
| "call_LogFunc faillog (AStr p # rest) = Exits"
| "call_LogFunc faillog (m # rest) = Panics"
| "call_LogFunc (UserLog n b) elem = b"

fun call_PrintFunc :: "PrintFunc \<Rightarrow> any list \<Rightarrow> behaviour" where
  "call_PrintFunc print msg = Returns"
| "call_PrintFunc (UserPrint n b) msg = b"

datatype event = PrintCall PrintFunc "any list" | LogCall LogFunc "any list"

datatype 'a result = Return 'a | Panicked | Exited

subsection \<open>The constructor and the configuration methods\<close>

definition New :: "globals \<Rightarrow> error option \<Rightarrow> string \<Rightarrow> string \<Rightarrow> ExtendedError" where
  "New g err ident msg =
    (let e0 = ExtendedError None ident msg 1 (ErrLogger g) (ErrPrinter g) 3 False;
         e1 = (if ident = Fail \<or> ident = Panic
               then set_stackFrames (- 1) (set_level 4 (set_logfn (FailLogger g) e0))
               else set_Id LogErr e0);
         e2 = (if err \<noteq> None then set_werr err e1 else e1)
     in e2)"

definition ExtendedError_Log :: "ExtendedError \<Rightarrow> int \<Rightarrow> LogFunc list \<Rightarrow> ExtendedError" where
  "ExtendedError_Log e lvl fns =
    (let e1 = set_level lvl e
     in if length fns > 0 then set_logfn (hd fns) e1 else e1)"

definition ExtendedError_Print :: "ExtendedError \<Rightarrow> PrintFunc \<Rightarrow> ExtendedError" where
  "ExtendedError_Print e pf = set_printfn pf e"

definition ExtendedError_Stack :: "ExtendedError \<Rightarrow> int \<Rightarrow> ExtendedError" where
  "ExtendedError_Stack e frames = set_stackFrames frames e"

subsection \<open>\<^verbatim>\<open>Error\<close> and \<^verbatim>\<open>Unwrap\<close>\<close>

text \<open>
  A call of \<^verbatim>\<open>Error\<close> returns a string (\<open>Inr\<close>) or panics (\<open>Inl\<close>, with the text of the value
  of the panic). The runtime's message for a value method called through a nil pointer
  names the package by its import path, written \<^verbatim>\<open>errors\<close> here. A panic of the wrapped
  error's \<^verbatim>\<open>Error\<close> inside \<^verbatim>\<open>ExtendedError.Error\<close> is not recovered there.
\<close>

definition nil_receiver_panic :: string where
  "nil_receiver_panic =
    ''value method errors.ExtendedError.Error called using nil *ExtendedError pointer''"

fun error_Error :: "error \<Rightarrow> string + string"
  and ExtendedError_Error :: "ExtendedError \<Rightarrow> string + string" where
  "error_Error (PlainErr m) = Inr m"
| "error_Error (FaultyErr np pv) = Inl pv"
| "error_Error (ExtVal e) = ExtendedError_Error e"
| "error_Error (ExtPtr e) = ExtendedError_Error e"
| "error_Error ExtNil = Inl nil_receiver_panic"
| "ExtendedError_Error (ExtendedError w i u l lf pf sf h) =
    (case w of
       Some x \<Rightarrow> (case error_Error x of Inl pv \<Rightarrow> Inl pv | Inr s \<Rightarrow> Inr (u @ '': '' @ s))
     | None \<Rightarrow> Inr u)"

definition ExtendedError_Unwrap :: "ExtendedError \<Rightarrow> error option" where
  "ExtendedError_Unwrap e = werr e"

subsection \<open>Formatting\<close>

text \<open>
  \<^verbatim>\<open>strings.TrimRight(s, cutset)\<close> removes every trailing byte of \<open>s\<close> that is in the cutset.
\<close>

definition TrimRight :: "string \<Rightarrow> string \<Rightarrow> string" where
  "TrimRight s cutset = rev (dropWhile (\<lambda>c. c \<in> set cutset) (rev s))"

text \<open>The decimal digits of a natural number, as \<^verbatim>\<open>fmt\<close> prints an integer.\<close>

fun digits :: "nat \<Rightarrow> string" where
  "digits n =
    (if n < 10 then [char_of (48 + n)]
     else digits (n div 10) @ [char_of (48 + n mod 10)])"

declare digits.simps [simp del]

text \<open>
  What \<^verbatim>\<open>fmt\<close> prints for a non-nil error under \<^verbatim>\<open>%v\<close>, \<^verbatim>\<open>%+v\<close> and in \<^verbatim>\<open>Sprint\<close>: the result
  of its \<^verbatim>\<open>Error\<close> method. \<^verbatim>\<open>fmt\<close> recovers a panic of that method, and prints \<^verbatim>\<open><nil>\<close> when
  the error is a nil pointer and the value of the panic otherwise.
\<close>

fun is_nil_pointer :: "error \<Rightarrow> bool" where
  "is_nil_pointer ExtNil = True"
| "is_nil_pointer (FaultyErr np pv) = np"
| "is_nil_pointer e = False"

definition fmt_error :: "error \<Rightarrow> string" where
  "fmt_error e =
    (case error_Error e of
       Inr s \<Rightarrow> s
     | Inl pv \<Rightarrow>
        (if is_nil_pointer e then ''<nil>''
         else ''%!v(PANIC=Error method: '' @ pv @ '')''))"

text \<open>
  \<^verbatim>\<open>fmt.Sprint(m)\<close> of one operand: a string is printed as it is, an error as above, nil
  as \<^verbatim>\<open><nil>\<close>. With a second operand that is a string, as in \<^verbatim>\<open>fmt.Sprint(m, ", ")\<close>, no
  space is put between the two, so the result is the concatenation.
\<close>

fun Sprint :: "any \<Rightarrow> string" where
  "Sprint (AStr s) = s"
| "Sprint (AInt i) = (if i < 0 then ''-'' @ digits (nat (- i)) else digits (nat i))"
| "Sprint (ABool b) = (if b then ''true'' else ''false'')"
| "Sprint ANil = ''<nil>''"
| "Sprint (AErr e) = fmt_error e"
| "Sprint (AOther s) = s"

subsection \<open>\<^verbatim>\<open>concatMsg\<close>\<close>

text \<open>The panic of the type assertion \<^verbatim>\<open>m.(string)\<close> on the first message.\<close>

datatype panic = InterfaceConversion

text \<open>
  The loop \<^verbatim>\<open>for i, m := range msg\<close>: \<open>n\<close> is \<^verbatim>\<open>len(msg)\<close>, \<open>i\<close> the index of the head of
  the messages still to visit, \<open>em\<close> the string built so far. The test \<^verbatim>\<open>i == 0\<close> comes
  first, as in the source.
\<close>

fun concatMsg_loop :: "nat \<Rightarrow> nat \<Rightarrow> any list \<Rightarrow> string \<Rightarrow> panic + string" where
  "concatMsg_loop n i [] em = Inr em"
| "concatMsg_loop n i (m # ms) em =
    (if i = 0 then
       (case m of
          AStr s \<Rightarrow> concatMsg_loop n (i + 1) ms (em @ TrimRight s '' '' @ '': '')
        | _ \<Rightarrow> Inl InterfaceConversion)
     else if i = n - 1 then concatMsg_loop n (i + 1) ms (em @ Sprint m)
     else concatMsg_loop n (i + 1) ms (em @ Sprint m @ '', ''))"

definition concatMsg :: "any list \<Rightarrow> panic + string" where
  "concatMsg msg =
    (if length msg > 0 then
       (case concatMsg_loop (length msg) 0 msg [] of
          Inl p \<Rightarrow> Inl p
        | Inr em \<Rightarrow> Inr (em @ nl))
     else Inr [])"

subsection \<open>\<^verbatim>\<open>stackFrames\<close>\<close>

text \<open>
  A stack trace is the list of its frames, each given by the text \<^verbatim>\<open>%+v\<close> prints for it;
  \<^verbatim>\<open>%+v\<close> of a trace writes a newline and the frame, for every frame.
\<close>

type_synonym StackTrace = "string list"

definition StackTrace_Format :: "StackTrace \<Rightarrow> string" where
  "StackTrace_Format st = concat (map (\<lambda>f. nl @ f) st)"

text \<open>
  The function \<^verbatim>\<open>stackFrames(err, f...)\<close>. Its first argument is what the type assertion
  \<^verbatim>\<open>err.(stackTracer)\<close> finds: \<open>None\<close> when the error has no \<^verbatim>\<open>StackTrace\<close> method, the trace
  otherwise.
\<close>

definition stackFrames_of :: "StackTrace option \<Rightarrow> int list \<Rightarrow> string" where
  "stackFrames_of tracer f =
    (case tracer of
       None \<Rightarrow> []
     | Some st \<Rightarrow>
        (let fr = (if length f > 0 then hd f else 0)
         in if length f > 0 \<and> fr = 0 then []
            else if fr > 0 \<and> fr < int (length st) then StackTrace_Format (take (nat fr) st)
            else StackTrace_Format st))"

subsection \<open>\<^verbatim>\<open>handle\<close>\<close>

text \<open>
  \<open>stk\<close> is the trace that \<^verbatim>\<open>pkgerr.WithStack(err)\<close> records at the call; the value it
  returns always has a \<^verbatim>\<open>StackTrace\<close> method. \<^verbatim>\<open>err.Unwrap()\<close> is the field \<^verbatim>\<open>werr\<close>, which
  the test before it has found not nil; the call \<^verbatim>\<open>err.Unwrap().Error()\<close> comes before the
  call of the print function, and a panic of it ends \<^verbatim>\<open>handle\<close> with no call made. Both
  \<^verbatim>\<open>%v\<close> and \<^verbatim>\<open>%+v\<close> print the \<^verbatim>\<open>ExtendedError\<close> value as \<^verbatim>\<open>fmt\<close> prints an error. The
  result is the list of the calls made to the configured functions and how the function
  ended.
\<close>

definition ends :: "behaviour \<Rightarrow> unit result" where
  "ends b = (case b of Returns \<Rightarrow> Return () | Panics \<Rightarrow> Panicked | Exits \<Rightarrow> Exited)"

definition handle :: "StackTrace \<Rightarrow> ExtendedError \<Rightarrow> string \<Rightarrow> event list \<times> unit result" where
  "handle stk err logmsg =
    (case (case werr err of
             Some w \<Rightarrow>
               (case error_Error w of
                  Inl pv \<Rightarrow> Inl pv
                | Inr s \<Rightarrow> Inr (usermsg err @ '': '' @ s))
           | None \<Rightarrow> Inr (usermsg err)) of
       Inl pv \<Rightarrow> ([], Panicked)
     | Inr em \<Rightarrow>
        (let p = PrintCall (printfn err) [AStr em]
         in case call_PrintFunc (printfn err) [AStr em] of
              Panics \<Rightarrow> ([p], Panicked)
            | Exits \<Rightarrow> ([p], Exited)
            | Returns \<Rightarrow>
               (let st = stackFrames_of (Some stk) [stackFrames err]
                in if level err > 0 then
                     (let args =
                        (if stackFrames err = 0
                         then [AStr (Id' err),
                               AStr (logmsg @ nl @ ''Printed for user: '' @ fmt_error (ExtVal err)
                                     @ nl)]
                         else [AStr (Id' err),
                               AStr (logmsg @ nl @ ''Printed for user: '' @ fmt_error (ExtVal err)
                                     @ nl @ st @ '' '')])
                      in ([p, LogCall (logfn err) args], ends (call_LogFunc (logfn err) args)))
                   else ([p], Return ()))))"

subsection \<open>The method \<^verbatim>\<open>Handle\<close> and the free function \<^verbatim>\<open>Handle\<close>\<close>

text \<open>
  \<^verbatim>\<open>(*ExtendedError).Handle\<close>: \<open>e\<close> is what the receiver, not nil, points to. The argument
  \<^verbatim>\<open>concatMsg(logmsg...)\<close> is evaluated before \<^verbatim>\<open>handle\<close> is entered. A normal return gives
  the new content of the receiver (\<^verbatim>\<open>e.Handled = true\<close>) and the returned error, which is
  the \<^verbatim>\<open>ExtendedError\<close> value \<^verbatim>\<open>*e\<close>.
\<close>

definition ExtendedError_Handle ::
  "StackTrace \<Rightarrow> ExtendedError \<Rightarrow> any list \<Rightarrow> event list \<times> (ExtendedError \<times> error option) result" where
  "ExtendedError_Handle stk e logmsg =
    (case concatMsg logmsg of
       Inl p \<Rightarrow> ([], Panicked)
     | Inr lm \<Rightarrow>
        (case handle stk e lm of
           (evs, Return u) \<Rightarrow>
             (let e' = set_Handled True e in (evs, Return (e', Some (ExtVal e'))))
         | (evs, Panicked) \<Rightarrow> (evs, Panicked)
         | (evs, Exited) \<Rightarrow> (evs, Exited)))"

text \<open>
  Modelled from the spec: \<^verbatim>\<open>NewExtendedError\<close>, which \<^verbatim>\<open>Handle\<close> calls, is not declared in
  the source. The spec has one constructor ("construct a new ExtendedError wrapping err
  with that id and the remaining context arguments concatenated as the user message"),
  and the comment of \<^verbatim>\<open>New\<close> calls it \<^verbatim>\<open>NewExtendedError\<close>: it is \<^verbatim>\<open>New\<close>.
\<close>

definition NewExtendedError :: "globals \<Rightarrow> error option \<Rightarrow> string \<Rightarrow> string \<Rightarrow> ExtendedError" where
  "NewExtendedError g err ident msg = New g err ident msg"

text \<open>What the caller of the method keeps: the calls made and the returned error.\<close>

definition returned ::
  "event list \<times> (ExtendedError \<times> error option) result \<Rightarrow> event list \<times> error option result" where
  "returned r =
    (case r of
       (evs, Return (e, v)) \<Rightarrow> (evs, Return v)
     | (evs, Panicked) \<Rightarrow> (evs, Panicked)
     | (evs, Exited) \<Rightarrow> (evs, Exited))"

definition Handle ::
  "globals \<Rightarrow> StackTrace \<Rightarrow> error option \<Rightarrow> any list \<Rightarrow> event list \<times> error option result" where
  "Handle g stk err msg =
    (case err of
       None \<Rightarrow> ([], Return None)
     | Some (ExtVal Err) \<Rightarrow> returned (ExtendedError_Handle stk Err msg)
     | Some x \<Rightarrow>
        (if length msg > 0 then
           (case hd msg of
              AStr t \<Rightarrow>
                (case concatMsg (tl msg) of
                   Inl p \<Rightarrow> ([], Panicked)
                 | Inr um \<Rightarrow>
                     returned (ExtendedError_Handle stk (NewExtendedError g err t um) []))
            | _ \<Rightarrow> ([], Return err))
         else ([], Return err)))"

subsection \<open>Notions used to state the properties\<close>

text \<open>Whether the type assertion \<^verbatim>\<open>m.(string)\<close> succeeds.\<close>

fun is_string :: "any \<Rightarrow> bool" where
  "is_string (AStr s) = True"
| "is_string m = False"

text \<open>Whether an error is a \<^verbatim>\<open>*ExtendedError\<close>, nil or not.\<close>

fun is_pointer :: "error \<Rightarrow> bool" where
  "is_pointer (ExtPtr e) = True"
| "is_pointer ExtNil = True"
| "is_pointer x = False"

text \<open>
  The specification of the concatenation, in its own words: the first message is a
  label, with its trailing spaces trimmed and followed by \<^verbatim>\<open>": "\<close>; the messages after it
  are joined with \<^verbatim>\<open>", "\<close>, nothing following the last; a newline ends the whole.
\<close>

fun trim_spaces :: "string \<Rightarrow> string" where
  "trim_spaces s = (if s \<noteq> [] \<and> last s = CHR '' '' then trim_spaces (butlast s) else s)"

declare trim_spaces.simps [simp del]

fun sep_join :: "any list \<Rightarrow> string" where
  "sep_join [] = []"
| "sep_join [m] = Sprint m"
| "sep_join (m # ms) = Sprint m @ '', '' @ sep_join ms"

definition concat_spec :: "string \<Rightarrow> any list \<Rightarrow> string" where
  "concat_spec label rest = trim_spaces label @ '': '' @ sep_join rest @ nl"

section \<open>Properties\<close>

subsection \<open>Auxiliary facts\<close>

lemma display_eq:
  "(case werr e of
      Some w \<Rightarrow>
        (case error_Error w of Inl pv \<Rightarrow> Inl pv | Inr s \<Rightarrow> Inr (usermsg e @ '': '' @ s))
    | None \<Rightarrow> Inr (usermsg e))
    = ExtendedError_Error e"
  by (cases e) (simp split: option.split sum.split)

lemma set_Handled_sel [simp]:
  "werr (set_Handled b e) = werr e" "Id' (set_Handled b e) = Id' e"
  "usermsg (set_Handled b e) = usermsg e" "level (set_Handled b e) = level e"
  "logfn (set_Handled b e) = logfn e" "printfn (set_Handled b e) = printfn e"
  "stackFrames (set_Handled b e) = stackFrames e" "Handled (set_Handled b e) = b"
  by (cases e; simp)+

lemma Error_set_Handled [simp]:
  "ExtendedError_Error (set_Handled b e) = ExtendedError_Error e"
  by (cases e) simp

lemma New_unfold:
  "New g err ident um =
    (if ident = Fail \<or> ident = Panic
     then ExtendedError err ident um 4 (FailLogger g) (ErrPrinter g) (- 1) False
     else ExtendedError err LogErr um 1 (ErrLogger g) (ErrPrinter g) 3 False)"
  by (cases err) (simp_all add: New_def Let_def)

lemma New_sel:
  "werr (New g err ident um) = err"
  "usermsg (New g err ident um) = um"
  "printfn (New g err ident um) = ErrPrinter g"
  "Handled (New g err ident um) = False"
  "Id' (New g err ident um) = (if ident = Fail \<or> ident = Panic then ident else LogErr)"
  "level (New g err ident um) = (if ident = Fail \<or> ident = Panic then 4 else 1)"
  "stackFrames (New g err ident um) = (if ident = Fail \<or> ident = Panic then - 1 else 3)"
  "logfn (New g err ident um) = (if ident = Fail \<or> ident = Panic then FailLogger g else ErrLogger g)"
  by (simp_all add: New_unfold)

lemma Error_New:
  "ExtendedError_Error (New g (Some x) ident um) =
    (case error_Error x of Inl pv \<Rightarrow> Inl pv | Inr s \<Rightarrow> Inr (um @ '': '' @ s))"
  by (simp add: New_unfold)

lemma TrimRight_snoc:
  "TrimRight (s @ [c]) '' '' = (if c = CHR '' '' then TrimRight s '' '' else s @ [c])"
  by (simp add: TrimRight_def)

lemma TrimRight_trim_spaces: "TrimRight s '' '' = trim_spaces s"
proof (induction s rule: rev_induct)
  case Nil
  show ?case by (simp add: TrimRight_def trim_spaces.simps [of "[]"])
next
  case (snoc c s)
  then show ?case
    by (simp add: TrimRight_snoc trim_spaces.simps [of "s @ [c]"])
qed

lemma concatMsg_loop_tail:
  "0 < i \<Longrightarrow> i + length ms = n \<Longrightarrow> concatMsg_loop n i ms em = Inr (em @ sep_join ms)"
proof (induction ms arbitrary: i em)
  case Nil
  then show ?case by simp
next
  case (Cons m ms)
  show ?case
  proof (cases ms)
    case Nil
    with Cons.prems show ?thesis by auto
  next
    case (Cons m' ms')
    with Cons.prems have "i \<noteq> n - 1" by auto
    moreover have "concatMsg_loop n (i + 1) ms (em @ Sprint m @ '', '')
        = Inr ((em @ Sprint m @ '', '') @ sep_join ms)"
      using Cons.prems by (intro Cons.IH) auto
    ultimately show ?thesis using Cons.prems Cons by simp
  qed
qed

lemma concatMsg_label: "concatMsg (AStr a # rest) = Inr (concat_spec a rest)"
  using concatMsg_loop_tail [of 1 rest "Suc (length rest)" "TrimRight a '' '' @ '': ''"]
  by (simp add: concatMsg_def concat_spec_def TrimRight_trim_spaces)

lemma concatMsg_not_string: "\<not> is_string m \<Longrightarrow> concatMsg (m # ms) = Inl InterfaceConversion"
  by (cases m) (simp_all add: concatMsg_def)

lemma concatMsg_Nil: "concatMsg [] = Inr []"
  by (simp add: concatMsg_def)

lemma concatMsg_detail: "concatMsg [AStr ''detail''] = Inr (''detail: '' @ nl)"
  by (simp add: concatMsg_label concat_spec_def TrimRight_trim_spaces [symmetric] TrimRight_def)

lemma handle_no_display:
  "ExtendedError_Error e = Inl pv \<Longrightarrow> handle stk e lm = ([], Panicked)"
  by (simp add: handle_def display_eq)

lemma handle_silent:
  "level e \<le> 0 \<Longrightarrow> ExtendedError_Error e = Inr s \<Longrightarrow>
   fst (handle stk e lm) = [PrintCall (printfn e) [AStr s]]"
  by (simp add: handle_def display_eq Let_def split: behaviour.split)

lemma handle_logs:
  "0 < level e \<Longrightarrow> ExtendedError_Error e = Inr s \<Longrightarrow>
   call_PrintFunc (printfn e) [AStr s] = Returns \<Longrightarrow>
   \<exists>d. handle stk e lm =
     ([PrintCall (printfn e) [AStr s], LogCall (logfn e) [AStr (Id' e), AStr d]],
      ends (call_LogFunc (logfn e) [AStr (Id' e), AStr d]))"
  by (simp add: handle_def display_eq Let_def)

lemma handle_prints_first:
  "ExtendedError_Error e = Inr s \<Longrightarrow>
   \<exists>evs. fst (handle stk e lm) = PrintCall (printfn e) [AStr s] # evs"
  by (simp add: handle_def display_eq Let_def split: behaviour.split)

lemma method_Handle_events:
  "concatMsg msg = Inr lm \<Longrightarrow> fst (ExtendedError_Handle stk e msg) = fst (handle stk e lm)"
  by (cases "handle stk e lm") (simp add: ExtendedError_Handle_def Let_def split: result.split)

lemma fst_returned [simp]: "fst (returned r) = fst r"
  by (simp add: returned_def split: prod.split result.split)

lemma method_Handle_result:
  "ExtendedError_Handle stk e msg = (evs, Return (e', v)) \<Longrightarrow>
   e' = set_Handled True e \<and> v = Some (ExtVal e')"
  by (auto simp: ExtendedError_Handle_def Let_def split: sum.splits prod.splits result.splits)

lemma method_Handle_returns:
  "concatMsg msg = Inr lm \<Longrightarrow> handle stk e lm = (evs, Return u) \<Longrightarrow>
   ExtendedError_Handle stk e msg =
     (evs, Return (set_Handled True e, Some (ExtVal (set_Handled True e))))"
  by (simp add: ExtendedError_Handle_def Let_def)

lemma method_Handle_ends:
  "concatMsg msg = Inr lm \<Longrightarrow> handle stk e lm = (evs, r) \<Longrightarrow> r \<noteq> Return () \<Longrightarrow>
   returned (ExtendedError_Handle stk e msg) = (evs, case r of Panicked \<Rightarrow> Panicked | _ \<Rightarrow> Exited)"
  by (cases r) (simp_all add: ExtendedError_Handle_def returned_def)

lemma method_Handle_panics:
  "concatMsg msg = Inl p \<Longrightarrow> ExtendedError_Handle stk e msg = ([], Panicked)"
  by (simp add: ExtendedError_Handle_def)

lemma Handle_value: "Handle g stk (Some (ExtVal e)) msg = returned (ExtendedError_Handle stk e msg)"
  by (simp add: Handle_def)

lemma Handle_string_first:
  "\<forall>e. x \<noteq> ExtVal e \<Longrightarrow>
   Handle g stk (Some x) (AStr t # rest) =
     (case concatMsg rest of
        Inl p \<Rightarrow> ([], Panicked)
      | Inr um \<Rightarrow> returned (ExtendedError_Handle stk (NewExtendedError g (Some x) t um) []))"
  by (cases x) (simp_all add: Handle_def split: sum.split)

lemma Handle_malformed:
  assumes "\<forall>e. x \<noteq> ExtVal e" and "msg = [] \<or> \<not> is_string (hd msg)"
  shows "Handle g stk (Some x) msg = ([], Return (Some x))"
proof (cases msg)
  case Nil
  with assms(1) show ?thesis by (cases x) (simp_all add: Handle_def)
next
  case (Cons m ms)
  with assms(2) have "\<not> is_string m" by simp
  with Cons assms(1) show ?thesis
    by (cases x; cases m) (simp_all add: Handle_def)
qed

lemma is_pointer_not_value: "is_pointer x \<Longrightarrow> \<forall>e. x \<noteq> ExtVal e"
  by (cases x) simp_all

lemma ptr_not_delegated:
  assumes ret: "ExtendedError_Error e = Inr s"
  shows "Handle g stk (Some (ExtPtr e)) msg \<noteq> returned (ExtendedError_Handle stk e msg)"
proof (cases msg)
  case Nil
  obtain evs where "fst (handle stk e []) = PrintCall (printfn e) [AStr s] # evs"
    using handle_prints_first [OF ret] by blast
  then have "fst (returned (ExtendedError_Handle stk e [])) \<noteq> []"
    by (simp add: method_Handle_events [OF concatMsg_Nil])
  moreover have "fst (Handle g stk (Some (ExtPtr e)) []) = []"
    by (simp add: Handle_def)
  ultimately have "fst (Handle g stk (Some (ExtPtr e)) [])
      \<noteq> fst (returned (ExtendedError_Handle stk e []))"
    by simp
  then show ?thesis unfolding Nil by auto
next
  case (Cons m ms)
  show ?thesis
  proof (cases "is_string m")
    case False
    then have "Handle g stk (Some (ExtPtr e)) (m # ms) = ([], Return (Some (ExtPtr e)))"
      by (intro Handle_malformed) simp_all
    moreover have "returned (ExtendedError_Handle stk e (m # ms)) = ([], Panicked)"
      by (simp add: method_Handle_panics [OF concatMsg_not_string [OF False]] returned_def)
    ultimately show ?thesis using Cons by simp
  next
    case True
    then obtain t where m: "m = AStr t" by (cases m) simp_all
    obtain evs where d: "fst (returned (ExtendedError_Handle stk e (AStr t # ms)))
        = PrintCall (printfn e) [AStr s] # evs"
      using handle_prints_first [OF ret, of stk "concat_spec t ms"]
      by (auto simp: method_Handle_events [OF concatMsg_label])
    show ?thesis
    proof (cases "concatMsg ms")
      case (Inl p)
      then have "fst (Handle g stk (Some (ExtPtr e)) (AStr t # ms)) = []"
        by (simp add: Handle_string_first)
      with d have "fst (Handle g stk (Some (ExtPtr e)) (AStr t # ms))
          \<noteq> fst (returned (ExtendedError_Handle stk e (AStr t # ms)))"
        by simp
      then show ?thesis unfolding Cons m by auto
    next
      case (Inr um)
      let ?n = "NewExtendedError g (Some (ExtPtr e)) t um"
      have n: "ExtendedError_Error ?n = Inr (um @ '': '' @ s)"
        using ret by (simp add: NewExtendedError_def Error_New)
      obtain evs' where "fst (handle stk ?n []) = PrintCall (printfn ?n) [AStr (um @ '': '' @ s)] # evs'"
        using handle_prints_first [OF n] by blast
      then have "fst (Handle g stk (Some (ExtPtr e)) (AStr t # ms))
          = PrintCall (printfn ?n) [AStr (um @ '': '' @ s)] # evs'"
        using Inr by (simp add: Handle_string_first method_Handle_events [OF concatMsg_Nil])
      moreover have "length (um @ '': '' @ s) \<noteq> length s"
        by simp
      then have "um @ '': '' @ s \<noteq> s"
        by auto
      ultimately have "fst (Handle g stk (Some (ExtPtr e)) (AStr t # ms))
          \<noteq> fst (returned (ExtendedError_Handle stk e (AStr t # ms)))"
        using d by simp
      then show ?thesis unfolding Cons m by auto
    qed
  qed
qed

subsection \<open>The dispatcher on a nil error\<close>

text \<open>
  C7. For every list of context arguments, \<^verbatim>\<open>Handle(nil, ...)\<close> returns nil and handles
  nothing: no call of a print function and no call of a log function is made.
\<close>

theorem Handle_nil: "Handle g stk None msg = ([], Return None)"
  by (simp add: Handle_def)

subsection \<open>The dispatcher on a malformed call\<close>

text \<open>
  C8. For every non-nil error that is not an \<^verbatim>\<open>ExtendedError\<close> value, \<^verbatim>\<open>Handle\<close> called with
  no context argument, or with a first context argument that is not a string, returns the
  error it was given and handles nothing: no print call, no log call, no new
  \<^verbatim>\<open>ExtendedError\<close>.
\<close>

theorem Handle_passthrough:
  assumes "\<forall>e. x \<noteq> ExtVal e" and "msg = [] \<or> \<not> is_string (hd msg)"
  shows "Handle g stk (Some x) msg = ([], Return (Some x))"
  using assms by (rule Handle_malformed)

theorem Handle_passthrough_witness:
  "Handle defaults [] (Some (PlainErr ''boom'')) [] = ([], Return (Some (PlainErr ''boom''))) \<and>
   Handle defaults [] (Some (PlainErr ''boom'')) [AInt 42, AStr ''x'']
     = ([], Return (Some (PlainErr ''boom'')))"
  using Handle_passthrough [of "PlainErr ''boom''" "[]" defaults "[]"]
    Handle_passthrough [of "PlainErr ''boom''" "[AInt 42, AStr ''x'']" defaults "[]"]
  by simp

subsection \<open>The concatenation of the context messages\<close>

text \<open>
  C2. \<^verbatim>\<open>concatMsg("A", "B", "C")\<close> is \<^verbatim>\<open>"A: B, C\n"\<close>, \<^verbatim>\<open>concatMsg("A")\<close> is \<^verbatim>\<open>"A: \n"\<close> and
  \<^verbatim>\<open>concatMsg()\<close> is the empty string. In general, on a first message that is a string the
  function returns what the specification describes (\<open>concat_spec\<close>): the label with its
  trailing spaces trimmed and \<^verbatim>\<open>": "\<close>, the other messages joined with \<^verbatim>\<open>", "\<close> with nothing
  after the last, and a final newline. A single message is a label: the test for the
  first message comes before the test for the last.
\<close>

theorem concatMsg_meets_spec:
  "concatMsg [AStr ''A'', AStr ''B'', AStr ''C''] = Inr (''A: B, C'' @ nl) \<and>
   concatMsg [AStr ''A''] = Inr (''A: '' @ nl) \<and>
   concatMsg [] = Inr [] \<and>
   concatMsg [AStr ''A  '', AStr ''B''] = Inr (''A: B'' @ nl) \<and>
   concatMsg (AStr a # rest) = Inr (concat_spec a rest)"
  by (simp add: concatMsg_label concatMsg_Nil concat_spec_def TrimRight_trim_spaces [symmetric]
      TrimRight_def)

text \<open>
  C9. Whenever \<^verbatim>\<open>concatMsg\<close> receives at least one message and the first is not a string,
  it panics in the type assertion. Hence the method \<^verbatim>\<open>Handle\<close> called with such arguments,
  and the function \<^verbatim>\<open>Handle\<close> called with them on an \<^verbatim>\<open>ExtendedError\<close> value, panic
  before any print or log call and do not return.
\<close>

theorem not_string_panics:
  assumes "\<not> is_string m"
  shows "concatMsg (m # ms) = Inl InterfaceConversion \<and>
         ExtendedError_Handle stk e (m # ms) = ([], Panicked) \<and>
         Handle g stk (Some (ExtVal e)) (m # ms) = ([], Panicked)"
  using concatMsg_not_string [OF assms, of ms]
  by (simp add: ExtendedError_Handle_def Handle_def returned_def)

theorem not_string_panics_witness:
  "concatMsg [AInt 42, AStr ''x''] = Inl InterfaceConversion \<and>
   ExtendedError_Handle [] (New defaults None LogErr ''m'') [AInt 42, AStr ''x''] = ([], Panicked) \<and>
   Handle defaults [] (Some (ExtVal (New defaults None LogErr ''m''))) [AInt 42, AStr ''x'']
     = ([], Panicked)"
  using not_string_panics [of "AInt 42" "[AStr ''x'']" "[]" "New defaults None LogErr ''m''" defaults]
  by simp

subsection \<open>The constructor\<close>

text \<open>
  C4. For every id other than the constants \<^verbatim>\<open>Panic\<close> and \<^verbatim>\<open>Fail\<close>, \<^verbatim>\<open>New\<close> stores the constant
  \<^verbatim>\<open>LogErr\<close> as the id, with level 1 and 3 stack frames (and the log and print functions
  of the package variables).
\<close>

theorem New_other_id:
  assumes "ident \<noteq> Panic" and "ident \<noteq> Fail"
  shows "Id' (New g err ident um) = LogErr \<and> level (New g err ident um) = 1 \<and>
         stackFrames (New g err ident um) = 3 \<and>
         logfn (New g err ident um) = ErrLogger g \<and> printfn (New g err ident um) = ErrPrinter g"
  using assms by (simp add: New_sel)

theorem New_other_id_witness:
  "Id' (New defaults None ''SomeId'' ''m'') = LogErr \<and> level (New defaults None ''SomeId'' ''m'') = 1 \<and>
   stackFrames (New defaults None ''SomeId'' ''m'') = 3 \<and>
   Id' (New defaults None LogErr ''m'') = LogErr"
  using New_other_id [of "''SomeId''" defaults None "''m''"] New_other_id [of LogErr defaults None "''m''"]
  by (simp add: Panic_def Fail_def LogErr_def)

subsection \<open>The method \<^verbatim>\<open>Error\<close>\<close>

text \<open>
  C5. For every \<^verbatim>\<open>ExtendedError\<close> with a wrapped error, \<^verbatim>\<open>Error()\<close> is the user message,
  \<^verbatim>\<open>": "\<close> and what the wrapped error's \<^verbatim>\<open>Error()\<close> returns (whether the user message is
  empty or not), and it panics as the wrapped error's \<^verbatim>\<open>Error()\<close> does; with no wrapped
  error, \<^verbatim>\<open>Error()\<close> is the user message.
\<close>

theorem Error_string:
  "(werr e = Some w \<and> error_Error w = Inr s \<longrightarrow>
      ExtendedError_Error e = Inr (usermsg e @ '': '' @ s)) \<and>
   (werr e = Some w \<and> error_Error w = Inl pv \<longrightarrow> ExtendedError_Error e = Inl pv) \<and>
   (werr e = None \<longrightarrow> ExtendedError_Error e = Inr (usermsg e))"
  by (cases e) simp

theorem Error_string_witness:
  "ExtendedError_Error (New defaults (Some (PlainErr ''boom'')) LogErr ''cannot open'')
     = Inr ''cannot open: boom'' \<and>
   ExtendedError_Error (New defaults (Some ExtNil) LogErr ''cannot open'')
     = Inl nil_receiver_panic \<and>
   ExtendedError_Error (New defaults None LogErr ''cannot open'') = Inr ''cannot open''"
  using Error_string [of "New defaults (Some (PlainErr ''boom'')) LogErr ''cannot open''"
      "PlainErr ''boom''" "''boom''" nil_receiver_panic]
    Error_string [of "New defaults (Some ExtNil) LogErr ''cannot open''"
      ExtNil "''boom''" nil_receiver_panic]
    Error_string [of "New defaults None LogErr ''cannot open''"
      "PlainErr ''boom''" "''boom''" nil_receiver_panic]
  by (simp add: New_sel)

subsection \<open>The fatal classifications\<close>

text \<open>
  C3. For every wrapped error (or nil), \<^verbatim>\<open>New\<close> with the id \<^verbatim>\<open>Panic\<close> or \<^verbatim>\<open>Fail\<close> gives level 4,
  a negative number of stack frames (\<open>- 1\<close>, no limit) and the function of the variable
  \<^verbatim>\<open>FailLogger\<close> as the log function. A later call that is not a configuration call leaves
  the three as they are, whatever the \<^verbatim>\<open>ExtendedError\<close> it is made on: the method \<^verbatim>\<open>Handle\<close>,
  when it returns, has changed no field but \<^verbatim>\<open>Handled\<close>, and the function \<^verbatim>\<open>Handle\<close> on
  the value returns a value with the same three fields (\<^verbatim>\<open>Error\<close> and \<^verbatim>\<open>Unwrap\<close> have value
  receivers and assign nothing: they are functions of the struct here).
\<close>

theorem New_fatal:
  assumes "ident = Panic \<or> ident = Fail"
  shows "level (New g err ident um) = 4 \<and>
         stackFrames (New g err ident um) = - 1 \<and>
         stackFrames (New g err ident um) < 0 \<and>
         logfn (New g err ident um) = FailLogger g \<and>
         (\<forall>e stk msg evs e' v.
            ExtendedError_Handle stk e msg = (evs, Return (e', v)) \<longrightarrow>
            e' = set_Handled True e \<and> v = Some (ExtVal e') \<and>
            level e' = level e \<and> stackFrames e' = stackFrames e \<and> logfn e' = logfn e) \<and>
         (\<forall>g' e stk msg evs v.
            Handle g' stk (Some (ExtVal e)) msg = (evs, Return v) \<longrightarrow>
            (\<exists>e'. v = Some (ExtVal e') \<and>
               level e' = level e \<and> stackFrames e' = stackFrames e \<and> logfn e' = logfn e))"
proof -
  have sel: "level (New g err ident um) = 4" "stackFrames (New g err ident um) = - 1"
    "logfn (New g err ident um) = FailLogger g"
    using assms by (auto simp: New_sel)
  have m: "e' = set_Handled True e \<and> v = Some (ExtVal e') \<and>
      level e' = level e \<and> stackFrames e' = stackFrames e \<and> logfn e' = logfn e"
    if "ExtendedError_Handle stk e msg = (evs, Return (e', v))"
    for e stk msg evs e' v
    using method_Handle_result [OF that] by simp
  have d: "\<exists>e'. v = Some (ExtVal e') \<and>
      level e' = level e \<and> stackFrames e' = stackFrames e \<and> logfn e' = logfn e"
    if h: "Handle g' stk (Some (ExtVal e)) msg = (evs, Return v)"
    for g' e stk msg evs v
  proof -
    obtain evs' r where r: "ExtendedError_Handle stk e msg = (evs', r)"
      by (cases "ExtendedError_Handle stk e msg")
    with h obtain e' where "r = Return (e', v)"
      by (cases r) (auto simp: Handle_value returned_def)
    with r have "ExtendedError_Handle stk e msg = (evs', Return (e', v))" by simp
    from m [OF this] show ?thesis by blast
  qed
  from sel have c: "level (New g err ident um) = 4 \<and>
         stackFrames (New g err ident um) = - 1 \<and>
         stackFrames (New g err ident um) < 0 \<and>
         logfn (New g err ident um) = FailLogger g"
    by simp
  have m': "\<forall>e stk msg evs e' v.
            ExtendedError_Handle stk e msg = (evs, Return (e', v)) \<longrightarrow>
            e' = set_Handled True e \<and> v = Some (ExtVal e') \<and>
            level e' = level e \<and> stackFrames e' = stackFrames e \<and> logfn e' = logfn e"
    by (intro allI impI) (rule m)
  have d': "\<forall>g' e stk msg evs v.
            Handle g' stk (Some (ExtVal e)) msg = (evs, Return v) \<longrightarrow>
            (\<exists>e'. v = Some (ExtVal e') \<and>
               level e' = level e \<and> stackFrames e' = stackFrames e \<and> logfn e' = logfn e)"
    by (intro allI impI) (rule d)
  show ?thesis
    using c m' d' apply -
    apply (elim conjE)
    apply (intro conjI)
    apply assumption+
    done
qed

theorem New_fatal_witness:
  "level (New defaults None Panic ''m'') = 4 \<and>
   stackFrames (New defaults None Panic ''m'') = - 1 \<and>
   logfn (New defaults None Panic ''m'') = faillog \<and>
   (\<exists>evs e' v.
      ExtendedError_Handle [] (New (defaults\<lparr>FailLogger := UserLog 0 Returns\<rparr>) None Fail ''m'') []
        = (evs, Return (e', v)) \<and>
      v = Some (ExtVal e') \<and>
      level e' = 4 \<and> stackFrames e' = - 1 \<and> logfn e' = UserLog 0 Returns \<and>
      (\<exists>evs' e''. Handle defaults [] v [] = (evs', Return (Some (ExtVal e''))) \<and>
         level e'' = 4 \<and> stackFrames e'' = - 1 \<and> logfn e'' = UserLog 0 Returns))"
proof -
  let ?g = "defaults\<lparr>FailLogger := UserLog 0 Returns\<rparr>"
  let ?e = "New ?g None Fail ''m''"
  let ?e' = "set_Handled True ?e"
  let ?e'' = "set_Handled True ?e'"
  note p = New_fatal [where ident = Panic and g = defaults and err = None and um = "''m''",
      OF disjI1 [OF refl]]
  note t = New_fatal [where ident = Fail and g = ?g and err = None and um = "''m''",
      OF disjI2 [OF refl]]
  note t_method = t [THEN conjunct2, THEN conjunct2, THEN conjunct2, THEN conjunct2,
      THEN conjunct1, rule_format]
  note t_function = t [THEN conjunct2, THEN conjunct2, THEN conjunct2, THEN conjunct2,
      THEN conjunct2, rule_format]
  have a: "level (New defaults None Panic ''m'') = 4 \<and>
    stackFrames (New defaults None Panic ''m'') = - 1 \<and>
    logfn (New defaults None Panic ''m'') = faillog"
    using p [THEN conjunct1] p [THEN conjunct2, THEN conjunct1]
      p [THEN conjunct2, THEN conjunct2, THEN conjunct2, THEN conjunct1]
    by (simp add: defaults_def)
  have n: "level ?e = 4" "stackFrames ?e = - 1" "logfn ?e = UserLog 0 Returns"
    using t [THEN conjunct1] t [THEN conjunct2, THEN conjunct1]
      t [THEN conjunct2, THEN conjunct2, THEN conjunct2, THEN conjunct1]
    by (simp_all add: defaults_def)
  have "\<exists>evs. handle [] ?e [] = (evs, Return ())"
    by (simp add: handle_def New_unfold Let_def defaults_def stackFrames_of_def ends_def)
  then obtain evs where "handle [] ?e [] = (evs, Return ())" ..
  then have r: "ExtendedError_Handle [] ?e [] = (evs, Return (?e', Some (ExtVal ?e')))"
    by (rule method_Handle_returns [OF concatMsg_Nil])
  have b: "level ?e' = 4 \<and> stackFrames ?e' = - 1 \<and> logfn ?e' = UserLog 0 Returns"
    using t_method [OF r] n by simp
  have "\<exists>evs. handle [] ?e' [] = (evs, Return ())"
    by (simp add: handle_def New_unfold Let_def defaults_def stackFrames_of_def ends_def)
  then obtain evs' where "handle [] ?e' [] = (evs', Return ())" ..
  then have "ExtendedError_Handle [] ?e' [] = (evs', Return (?e'', Some (ExtVal ?e'')))"
    by (rule method_Handle_returns [OF concatMsg_Nil])
  then have r': "Handle defaults [] (Some (ExtVal ?e')) [] = (evs', Return (Some (ExtVal ?e'')))"
    by (simp add: Handle_value returned_def)
  from t_function [OF r'] obtain e3 where e3: "Some (ExtVal ?e'') = Some (ExtVal e3)"
    "level e3 = level ?e'" "stackFrames e3 = stackFrames ?e'" "logfn e3 = logfn ?e'"
    by blast
  from e3(1) have "e3 = ?e''" by simp
  with e3 b have c: "level ?e'' = 4 \<and> stackFrames ?e'' = - 1 \<and> logfn ?e'' = UserLog 0 Returns"
    by simp
  have "\<exists>evs' e''. Handle defaults [] (Some (ExtVal ?e')) [] = (evs', Return (Some (ExtVal e''))) \<and>
         level e'' = 4 \<and> stackFrames e'' = - 1 \<and> logfn e'' = UserLog 0 Returns"
    using r' c by (intro exI [of _ evs'] exI [of _ ?e'']) simp
  then have "\<exists>evs e' v.
      ExtendedError_Handle [] ?e [] = (evs, Return (e', v)) \<and>
      v = Some (ExtVal e') \<and>
      level e' = 4 \<and> stackFrames e' = - 1 \<and> logfn e' = UserLog 0 Returns \<and>
      (\<exists>evs' e''. Handle defaults [] v [] = (evs', Return (Some (ExtVal e''))) \<and>
         level e'' = 4 \<and> stackFrames e'' = - 1 \<and> logfn e'' = UserLog 0 Returns)"
    using r b by (intro exI [of _ evs] exI [of _ ?e'] exI [of _ "Some (ExtVal ?e')"]) simp
  with a show ?thesis by simp
qed

subsection \<open>The level decides whether \<^verbatim>\<open>handle\<close> logs\<close>

text \<open>
  C6, with two provisos. For every \<^verbatim>\<open>ExtendedError\<close> whose level is 0 (or below) and whose
  display string can be built, that is, the \<^verbatim>\<open>Error()\<close> of the wrapped error, if there is
  one, returns, \<^verbatim>\<open>handle\<close> calls the configured print function exactly once, with the
  display string, and never calls the configured log function. For every level above 0
  the log function is called, with the id first, after the print function, provided the
  display string can be built and the call of the print function returns.
\<close>

theorem handle_level_gate:
  "(level e \<le> 0 \<and> ExtendedError_Error e = Inr s \<longrightarrow>
      fst (handle stk e lm) = [PrintCall (printfn e) [AStr s]]) \<and>
   (0 < level e \<and> ExtendedError_Error e = Inr s \<and>
    call_PrintFunc (printfn e) [AStr s] = Returns \<longrightarrow>
      (\<exists>d. fst (handle stk e lm) =
         [PrintCall (printfn e) [AStr s], LogCall (logfn e) [AStr (Id' e), AStr d]]))"
proof (intro conjI impI)
  assume "level e \<le> 0 \<and> ExtendedError_Error e = Inr s"
  then show "fst (handle stk e lm) = [PrintCall (printfn e) [AStr s]]"
    by (simp add: handle_silent)
next
  assume "0 < level e \<and> ExtendedError_Error e = Inr s \<and>
    call_PrintFunc (printfn e) [AStr s] = Returns"
  then obtain d where "handle stk e lm =
     ([PrintCall (printfn e) [AStr s], LogCall (logfn e) [AStr (Id' e), AStr d]],
      ends (call_LogFunc (logfn e) [AStr (Id' e), AStr d]))"
    using handle_logs [of e s stk lm] by blast
  then show "\<exists>d. fst (handle stk e lm) =
         [PrintCall (printfn e) [AStr s], LogCall (logfn e) [AStr (Id' e), AStr d]]"
    by auto
qed

theorem handle_level_gate_witness:
  "fst (handle [] (ExtendedError_Log (New defaults None LogErr ''m'') 0 []) [])
     = [PrintCall print [AStr ''m'']] \<and>
   (\<exists>d. fst (handle [] (New defaults None LogErr ''m'') [])
     = [PrintCall print [AStr ''m''], LogCall errlog [AStr LogErr, AStr d]])"
  using handle_level_gate [of "ExtendedError_Log (New defaults None LogErr ''m'') 0 []" "''m''" "[]" "[]"]
    handle_level_gate [of "New defaults None LogErr ''m''" "''m''" "[]" "[]"]
  by (simp add: New_unfold ExtendedError_Log_def defaults_def Panic_def Fail_def LogErr_def)

text \<open>
  Without the provisos the statement fails. At level 0, with a wrapped nil
  \<^verbatim>\<open>*ExtendedError\<close>, \<^verbatim>\<open>handle\<close> panics in \<^verbatim>\<open>err.Unwrap().Error()\<close> before it has called the print
  function. At level 1, with a print function that panics, \<^verbatim>\<open>handle\<close> makes the print call
  and no log call.
\<close>

theorem handle_level_gate_counterexample:
  "level (ExtendedError_Log (New defaults (Some ExtNil) LogErr ''m'') 0 []) = 0 \<and>
   handle [] (ExtendedError_Log (New defaults (Some ExtNil) LogErr ''m'') 0 []) []
     = ([], Panicked) \<and>
   0 < level (ExtendedError_Print (New defaults None LogErr ''m'') (UserPrint 0 Panics)) \<and>
   handle [] (ExtendedError_Print (New defaults None LogErr ''m'') (UserPrint 0 Panics)) []
     = ([PrintCall (UserPrint 0 Panics) [AStr ''m'']], Panicked)"
  by (simp add: handle_def New_unfold ExtendedError_Print_def ExtendedError_Log_def defaults_def
      Panic_def Fail_def LogErr_def)

subsection \<open>The dispatcher on a pointer\<close>

text \<open>
  C10. The dispatcher recognises an \<^verbatim>\<open>ExtendedError\<close> value only, not a pointer to one.
  On every \<^verbatim>\<open>*ExtendedError\<close>, whatever it points to, and so on the pointer that \<^verbatim>\<open>New\<close> has
  just returned, \<^verbatim>\<open>Handle\<close> does not delegate to the method: with a string as the first
  context argument it wraps the pointer in a new \<^verbatim>\<open>ExtendedError\<close> and handles that, and
  otherwise it returns the pointer untouched. Where \<^verbatim>\<open>Error()\<close> of what the pointer points to
  returns, the outcome differs from that of the delegation. On an \<^verbatim>\<open>ExtendedError\<close> value
  \<^verbatim>\<open>Handle\<close> delegates to the method; what the method \<^verbatim>\<open>Handle\<close> returns is such a value.
\<close>

theorem pointer_is_not_recognised:
  "(is_pointer x \<longrightarrow>
      (\<forall>t rest. Handle g stk (Some x) (AStr t # rest) =
         (case concatMsg rest of
            Inl p \<Rightarrow> ([], Panicked)
          | Inr m \<Rightarrow>
              returned (ExtendedError_Handle stk (NewExtendedError g (Some x) t m) []))) \<and>
      (msg = [] \<or> \<not> is_string (hd msg) \<longrightarrow>
         Handle g stk (Some x) msg = ([], Return (Some x)))) \<and>
   (ExtendedError_Error e = Inr s \<longrightarrow>
      Handle g stk (Some (ExtPtr e)) msg \<noteq> returned (ExtendedError_Handle stk e msg)) \<and>
   Handle g stk (Some (ExtVal e)) msg = returned (ExtendedError_Handle stk e msg) \<and>
   (\<forall>evs e' v. ExtendedError_Handle stk e msg = (evs, Return (e', v)) \<longrightarrow>
      v = Some (ExtVal e') \<and>
      (\<forall>stk' msg'. Handle g stk' v msg' = returned (ExtendedError_Handle stk' e' msg')))"
proof (intro conjI allI impI)
  fix t rest
  assume "is_pointer x"
  then show "Handle g stk (Some x) (AStr t # rest) =
         (case concatMsg rest of
            Inl p \<Rightarrow> ([], Panicked)
          | Inr m \<Rightarrow>
              returned (ExtendedError_Handle stk (NewExtendedError g (Some x) t m) []))"
    by (intro Handle_string_first is_pointer_not_value)
next
  assume "is_pointer x" and "msg = [] \<or> \<not> is_string (hd msg)"
  then show "Handle g stk (Some x) msg = ([], Return (Some x))"
    by (intro Handle_malformed is_pointer_not_value)
next
  assume "ExtendedError_Error e = Inr s"
  then show "Handle g stk (Some (ExtPtr e)) msg \<noteq> returned (ExtendedError_Handle stk e msg)"
    by (rule ptr_not_delegated)
next
  show "Handle g stk (Some (ExtVal e)) msg = returned (ExtendedError_Handle stk e msg)"
    by (rule Handle_value)
next
  fix evs e' v
  assume "ExtendedError_Handle stk e msg = (evs, Return (e', v))"
  then show "v = Some (ExtVal e')"
    using method_Handle_result by blast
next
  fix evs e' v stk' msg'
  assume "ExtendedError_Handle stk e msg = (evs, Return (e', v))"
  then have "v = Some (ExtVal e')"
    using method_Handle_result by blast
  then show "Handle g stk' v msg' = returned (ExtendedError_Handle stk' e' msg')"
    by (simp add: Handle_value)
qed

theorem pointer_is_not_recognised_witness:
  "Handle defaults [] (Some (ExtPtr (New defaults None LogErr ''m''))) []
     = ([], Return (Some (ExtPtr (New defaults None LogErr ''m'')))) \<and>
   Handle defaults [] (Some (ExtPtr (New defaults None LogErr ''m''))) [AStr LogErr]
     = returned (ExtendedError_Handle []
         (NewExtendedError defaults (Some (ExtPtr (New defaults None LogErr ''m''))) LogErr []) []) \<and>
   Handle defaults [] (Some (ExtPtr (New defaults None LogErr ''m''))) []
     \<noteq> returned (ExtendedError_Handle [] (New defaults None LogErr ''m'') []) \<and>
   (\<exists>evs e'. ExtendedError_Handle [] (New defaults None LogErr ''m'') []
       = (evs, Return (e', Some (ExtVal e'))) \<and>
     Handle defaults [] (Some (ExtVal e')) [] = returned (ExtendedError_Handle [] e' []))"
proof -
  let ?e = "New defaults None LogErr ''m''"
  let ?e' = "set_Handled True ?e"
  note t0 = pointer_is_not_recognised [where x = "ExtPtr ?e" and e = ?e and g = defaults
      and stk = "[]" and s = "''m''"]
  note t = t0 [where msg = "[]"]
  note u = t0 [where msg = "[AStr LogErr]"]
  have ptr: "is_pointer (ExtPtr ?e)" by simp
  have err: "ExtendedError_Error ?e = Inr ''m''" by (simp add: New_unfold)
  have "\<exists>evs. handle [] ?e [] = (evs, Return ())"
    by (simp add: handle_def New_unfold Let_def defaults_def stackFrames_of_def ends_def
        LogErr_def Fail_def Panic_def)
  then obtain evs where "handle [] ?e [] = (evs, Return ())" ..
  then have r: "ExtendedError_Handle [] ?e [] = (evs, Return (?e', Some (ExtVal ?e')))"
    by (rule method_Handle_returns [OF concatMsg_Nil])
  have a: "Handle defaults [] (Some (ExtPtr ?e)) [] = ([], Return (Some (ExtPtr ?e)))"
    using t [THEN conjunct1, rule_format, OF ptr, THEN conjunct2, rule_format] by simp
  have "Handle defaults [] (Some (ExtPtr ?e)) [AStr LogErr] =
      (case concatMsg [] of
         Inl p \<Rightarrow> ([], Panicked)
       | Inr m \<Rightarrow>
           returned (ExtendedError_Handle [] (NewExtendedError defaults (Some (ExtPtr ?e)) LogErr m) []))"
    by (rule u [THEN conjunct1, rule_format, OF ptr, THEN conjunct1, rule_format])
  then have b: "Handle defaults [] (Some (ExtPtr ?e)) [AStr LogErr]
     = returned (ExtendedError_Handle [] (NewExtendedError defaults (Some (ExtPtr ?e)) LogErr []) [])"
    by (simp add: concatMsg_Nil)
  have c: "Handle defaults [] (Some (ExtPtr ?e)) [] \<noteq> returned (ExtendedError_Handle [] ?e [])"
    by (rule t [THEN conjunct2, THEN conjunct1, rule_format, OF err])
  have "Some (ExtVal ?e') = Some (ExtVal ?e') \<and>
      (\<forall>stk' msg'. Handle defaults stk' (Some (ExtVal ?e')) msg'
         = returned (ExtendedError_Handle stk' ?e' msg'))"
    by (rule t [THEN conjunct2, THEN conjunct2, THEN conjunct2, rule_format, OF r])
  then have d: "Handle defaults [] (Some (ExtVal ?e')) [] = returned (ExtendedError_Handle [] ?e' [])"
    by blast
  have "\<exists>evs e'. ExtendedError_Handle [] ?e [] = (evs, Return (e', Some (ExtVal e'))) \<and>
     Handle defaults [] (Some (ExtVal e')) [] = returned (ExtendedError_Handle [] e' [])"
    using r d by (intro exI [of _ evs] exI [of _ ?e']) simp
  with a b c show ?thesis by simp
qed

subsection \<open>The dispatcher on a foreign error\<close>

text \<open>
  C1, as far as it holds. For every non-nil error that is not an \<^verbatim>\<open>ExtendedError\<close> value and
  whose \<^verbatim>\<open>Error()\<close> returns, when the calls of the functions of \<^verbatim>\<open>ErrPrinter\<close> and
  \<^verbatim>\<open>ErrLogger\<close> return, \<^verbatim>\<open>Handle(err, "SomeId", "detail")\<close> returns a handled \<^verbatim>\<open>ExtendedError\<close>
  value that wraps the error; its \<^verbatim>\<open>Error()\<close>, which is also what is printed, begins with
  \<^verbatim>\<open>"detail: "\<close> and ends with the error's message; and the id passed to the log function
  is the constant \<^verbatim>\<open>LogErr\<close>, not \<^verbatim>\<open>"SomeId"\<close>. What stands between \<^verbatim>\<open>"detail: "\<close> and the
  message is left open.
\<close>

theorem Handle_promotes:
  assumes "\<forall>e. x \<noteq> ExtVal e" and "error_Error x = Inr m"
    and "\<forall>s. call_PrintFunc (ErrPrinter g) [AStr s] = Returns"
    and "\<forall>i d. call_LogFunc (ErrLogger g) [AStr i, AStr d] = Returns"
  shows "\<exists>e' s d. Handle g stk (Some x) [AStr ''SomeId'', AStr ''detail''] =
      ([PrintCall (ErrPrinter g) [AStr s], LogCall (ErrLogger g) [AStr LogErr, AStr d]],
       Return (Some (ExtVal e'))) \<and>
     Handled e' \<and> werr e' = Some x \<and> Id' e' = LogErr \<and>
     ExtendedError_Error e' = Inr s \<and> prefix ''detail: '' s \<and> suffix m s"
proof -
  let ?um = "''detail: '' @ nl"
  let ?s = "?um @ '': '' @ m"
  let ?n = "NewExtendedError g (Some x) ''SomeId'' ?um"
  let ?n' = "set_Handled True ?n"
  have id: "''SomeId'' \<noteq> Panic" "''SomeId'' \<noteq> Fail"
    by (simp_all add: Panic_def Fail_def)
  have sel: "level ?n = 1" "logfn ?n = ErrLogger g" "printfn ?n = ErrPrinter g"
    "Id' ?n = LogErr" "werr ?n = Some x"
    using id by (simp_all add: NewExtendedError_def New_sel)
  have err: "ExtendedError_Error ?n = Inr ?s"
    using assms(2) by (simp add: NewExtendedError_def Error_New)
  have "call_PrintFunc (printfn ?n) [AStr ?s] = Returns"
    using assms(3) sel(3) by simp
  with handle_logs [of ?n ?s stk "[]"] sel(1) err
  obtain d where h: "handle stk ?n [] =
     ([PrintCall (printfn ?n) [AStr ?s], LogCall (logfn ?n) [AStr (Id' ?n), AStr d]],
      ends (call_LogFunc (logfn ?n) [AStr (Id' ?n), AStr d]))"
    by auto
  have "ends (call_LogFunc (logfn ?n) [AStr (Id' ?n), AStr d]) = Return ()"
    using assms(4) sel(2,4) by (simp add: ends_def)
  with h have "ExtendedError_Handle stk ?n [] =
     ([PrintCall (printfn ?n) [AStr ?s], LogCall (logfn ?n) [AStr (Id' ?n), AStr d]],
      Return (?n', Some (ExtVal ?n')))"
    by (intro method_Handle_returns [OF concatMsg_Nil]) simp
  then have res: "Handle g stk (Some x) [AStr ''SomeId'', AStr ''detail''] =
     ([PrintCall (ErrPrinter g) [AStr ?s], LogCall (ErrLogger g) [AStr LogErr, AStr d]],
      Return (Some (ExtVal ?n')))"
    using assms(1) sel by (simp add: Handle_string_first concatMsg_detail returned_def)
  have pre: "prefix ''detail: '' ?s" by simp
  have suf: "suffix m ?s" unfolding suffix_def by (intro exI [of _ "?um @ '': ''"]) simp
  have "Handled ?n' \<and> werr ?n' = Some x \<and> Id' ?n' = LogErr \<and> ExtendedError_Error ?n' = Inr ?s"
    using sel err by simp
  with res pre suf show ?thesis
    by (intro exI [of _ ?n'] exI [of _ ?s] exI [of _ d]) simp
qed

theorem Handle_promotes_witness:
  "\<exists>e' s d. Handle defaults [] (Some (PlainErr ''boom'')) [AStr ''SomeId'', AStr ''detail''] =
      ([PrintCall print [AStr s], LogCall errlog [AStr LogErr, AStr d]],
       Return (Some (ExtVal e'))) \<and>
     Handled e' \<and> werr e' = Some (PlainErr ''boom'') \<and> Id' e' = LogErr \<and>
     ExtendedError_Error e' = Inr s \<and> prefix ''detail: '' s \<and> suffix ''boom'' s"
  using Handle_promotes [of "PlainErr ''boom''" "''boom''" defaults "[]"]
  by (simp add: defaults_def)

text \<open>
  The statement of C1 fails, and so does the statement above without each of its
  provisos. With the package's default functions and the foreign error \<^verbatim>\<open>boom\<close>,
  \<^verbatim>\<open>Error()\<close> of the result does not contain \<^verbatim>\<open>"detail: boom"\<close> and the id passed to the log
  function is not \<^verbatim>\<open>"SomeId"\<close>. On a nil \<^verbatim>\<open>*ExtendedError\<close> the call panics before anything is
  printed; with a print function that panics it panics after the print call; with the
  fatal logger as \<^verbatim>\<open>ErrLogger\<close> the process ends in the log call.
\<close>

theorem Handle_promotes_counterexample:
  "Handle defaults [] (Some (PlainErr ''boom'')) [AStr ''SomeId'', AStr ''detail''] =
     ([PrintCall print [AStr (''detail: '' @ nl @ '': boom'')],
       LogCall errlog
         [AStr ''Log and return '',
          AStr (nl @ ''Printed for user: detail: '' @ nl @ '': boom'' @ nl @ '' '')]],
      Return (Some (ExtVal
        (ExtendedError (Some (PlainErr ''boom'')) ''Log and return '' (''detail: '' @ nl)
           1 errlog print 3 True)))) \<and>
   ExtendedError_Error
     (ExtendedError (Some (PlainErr ''boom'')) ''Log and return '' (''detail: '' @ nl)
        1 errlog print 3 True) = Inr (''detail: '' @ nl @ '': boom'') \<and>
   \<not> sublist (''detail: '' @ ''boom'') (''detail: '' @ nl @ '': boom'') \<and>
   ''Log and return '' \<noteq> ''SomeId'' \<and>
   Handle defaults [] (Some ExtNil) [AStr ''SomeId'', AStr ''detail''] = ([], Panicked) \<and>
   Handle (defaults\<lparr>ErrPrinter := UserPrint 0 Panics\<rparr>) [] (Some (PlainErr ''boom''))
       [AStr ''SomeId'', AStr ''detail'']
     = ([PrintCall (UserPrint 0 Panics) [AStr (''detail: '' @ nl @ '': boom'')]], Panicked) \<and>
   Handle (defaults\<lparr>ErrLogger := faillog\<rparr>) [] (Some (PlainErr ''boom''))
       [AStr ''SomeId'', AStr ''detail'']
     = ([PrintCall print [AStr (''detail: '' @ nl @ '': boom'')],
         LogCall faillog
           [AStr ''Log and return '',
            AStr (nl @ ''Printed for user: detail: '' @ nl @ '': boom'' @ nl @ '' '')]],
        Exited)"
proof -
  note defs = Handle_string_first concatMsg_detail NewExtendedError_def returned_def
    ExtendedError_Handle_def concatMsg_Nil handle_def New_unfold Let_def defaults_def
    stackFrames_of_def ends_def StackTrace_Format_def fmt_error_def LogErr_def Fail_def Panic_def
  have "\<not> sublist (''detail: '' @ ''boom'') (''detail: '' @ nl @ '': boom'')"
    unfolding nl_def by code_simp
  moreover have "Handle defaults [] (Some (PlainErr ''boom'')) [AStr ''SomeId'', AStr ''detail''] =
     ([PrintCall print [AStr (''detail: '' @ nl @ '': boom'')],
       LogCall errlog
         [AStr ''Log and return '',
          AStr (nl @ ''Printed for user: detail: '' @ nl @ '': boom'' @ nl @ '' '')]],
      Return (Some (ExtVal
        (ExtendedError (Some (PlainErr ''boom'')) ''Log and return '' (''detail: '' @ nl)
           1 errlog print 3 True))))"
    by (simp add: defs)
  moreover have "Handle defaults [] (Some ExtNil) [AStr ''SomeId'', AStr ''detail''] = ([], Panicked)"
    by (simp add: defs)
  moreover have "Handle (defaults\<lparr>ErrPrinter := UserPrint 0 Panics\<rparr>) [] (Some (PlainErr ''boom''))
       [AStr ''SomeId'', AStr ''detail'']
     = ([PrintCall (UserPrint 0 Panics) [AStr (''detail: '' @ nl @ '': boom'')]], Panicked)"
    by (simp add: defs)
  moreover have "Handle (defaults\<lparr>ErrLogger := faillog\<rparr>) [] (Some (PlainErr ''boom''))
       [AStr ''SomeId'', AStr ''detail'']
     = ([PrintCall print [AStr (''detail: '' @ nl @ '': boom'')],
         LogCall faillog
           [AStr ''Log and return '',
            AStr (nl @ ''Printed for user: detail: '' @ nl @ '': boom'' @ nl @ '' '')]],
        Exited)"
    by (simp add: defs)
  ultimately show ?thesis by simp
qed


end
